theory Spec2Isabelle
  imports Main
begin

section \<open>The keepalive manager of src/lib/keepalive-manager.ts\<close>

text \<open>
  The class \<open>KeepAliveManager\<close> keeps four private fields and registers interval timers and
  event listeners with the hosting page. Its callbacks talk to collaborators whose code is
  not part of the manager (the Supabase auth client, the probe query, the realtime manager,
  the logout utilities). Every call to a collaborator is an \<^emph>\<open>action\<close> recorded in a trace,
  and what the collaborator answers is taken from an environment, one per run of a callback.

  Numbers are JavaScript numbers holding integral millisecond and second counts; they are
  modelled as \<open>int\<close> (exact below \<open>2^53\<close>). \<open>console\<close> output is not modelled.
  \<open>getSupabaseClient()\<close> is taken as an accessor that returns the client.
\<close>

subsection \<open>Collaborators and their answers\<close>

text \<open>
  A call either throws (for a promise that is awaited: rejects) or returns a value.
\<close>

datatype 'a outcome = Throws | Returns 'a

datatype auth_error = AuthError string

datatype pg_error = PgError (err_code: "string option")

text \<open>Of a session the manager reads \<open>expires_at\<close> only (seconds; may be undefined).\<close>

record session =
  expires_at :: "int option"

text \<open>
  The probe is \<open>Promise.race\<close> of the query and of a 5000 ms timer that resolves to
  \<open>{ error: { code: 'TIMEOUT' } }\<close>: either the timer settles first, or the query does,
  resolving to its \<open>error\<close> field or rejecting.
\<close>

datatype probe_race = TimerFirst | QueryResolves "pg_error option" | QueryRejects

record env =
  now :: "nat \<Rightarrow> int"
  getSession :: "(auth_error option \<times> session option) outcome"
  refreshSession :: "auth_error option outcome"
  importLogoutUtils :: "unit outcome"
  performCompleteLogout :: "unit outcome"
  forceRedirectToHome :: "unit outcome"
  probe :: probe_race
  reconnectNow :: "unit outcome"
  reconnectNowInCatch :: "unit outcome"

text \<open>
  \<open>now env k\<close> is what the \<open>k\<close>-th evaluation of \<open>Date.now()\<close> in the run returns (counted
  from 0, in program order). \<open>reconnectNow env\<close> answers the call of
  \<open>realtimeManager.reconnectNow()\<close> on the main path of a callback,
  \<open>reconnectNowInCatch env\<close> the call made by the \<open>catch\<close> handler of the connection ping.
\<close>

datatype action =
    GetSession
  | RefreshSession
  | ImportLogoutUtils
  | PerformCompleteLogout
  | ForceRedirectToHome
  | ProbeQuery
  | ReconnectNow
  | DispatchAppRefresh string "int option"

datatype exn = Thrown action

subsection \<open>Sequencing, exceptions and try/catch\<close>

text \<open>
  A piece of callback code maps the state it may mutate to the trace of the actions it
  performed, the new state, and either the exception that left it or its value.
\<close>

type_synonym ('s, 'a) js = "'s \<Rightarrow> action list \<times> 's \<times> (exn + 'a)"

definition ret :: "'a \<Rightarrow> ('s, 'a) js" where
  "ret x = (\<lambda>s. ([], s, Inr x))"

definition seq :: "('s, 'a) js \<Rightarrow> ('a \<Rightarrow> ('s, 'b) js) \<Rightarrow> ('s, 'b) js" where
  "seq m f = (\<lambda>s. case m s of
       (tr, s', Inl e) \<Rightarrow> (tr, s', Inl e)
     | (tr, s', Inr x) \<Rightarrow> (case f x s' of (tr', s'', r) \<Rightarrow> (tr @ tr', s'', r)))"

definition try_catch :: "('s, 'a) js \<Rightarrow> (exn \<Rightarrow> ('s, 'a) js) \<Rightarrow> ('s, 'a) js" where
  "try_catch m h = (\<lambda>s. case m s of
       (tr, s', Inl e) \<Rightarrow> (case h e s' of (tr', s'', r) \<Rightarrow> (tr @ tr', s'', r))
     | (tr, s', Inr x) \<Rightarrow> (tr, s', Inr x))"

definition call :: "action \<Rightarrow> 'a outcome \<Rightarrow> ('s, 'a) js" where
  "call a out = (\<lambda>s. ([a], s, case out of Throws \<Rightarrow> Inl (Thrown a) | Returns v \<Rightarrow> Inr v))"

definition assign :: "('s \<Rightarrow> 's) \<Rightarrow> ('s, unit) js" where
  "assign f = (\<lambda>s. ([], f s, Inr ()))"

text \<open>
  \<open>issue a\<close> performs a call whose answer is not used where the call is made: a promise
  that is not awaited there, or \<open>window.dispatchEvent\<close>. \<open>settle a out\<close> is the later
  point at which the promise of the call \<open>a\<close> is fulfilled or rejected.
\<close>

definition issue :: "action \<Rightarrow> ('s, unit) js" where
  "issue a = (\<lambda>s. ([a], s, Inr ()))"

definition settle :: "action \<Rightarrow> 'a outcome \<Rightarrow> ('s, 'a) js" where
  "settle a out = (\<lambda>s. ([], s, case out of Throws \<Rightarrow> Inl (Thrown a) | Returns v \<Rightarrow> Inr v))"

text \<open>
  A promise chain that is started and not awaited (\<open>p.then(...).catch(...)\<close>) runs after
  the synchronous code that started it has finished, whether that code returned or threw,
  and nothing that happens in the chain reaches the code that started it.
\<close>

definition then_later :: "('s, 'a) js \<Rightarrow> ('s, unit) js \<Rightarrow> ('s, 'a) js" where
  "then_later m chain = (\<lambda>s. case m s of
       (tr, s', r) \<Rightarrow> (case chain s' of (tr', s'', _) \<Rightarrow> (tr @ tr', s'', r)))"

definition actions :: "action list \<times> 's \<times> (exn + 'a) \<Rightarrow> action list" where
  "actions r = fst r"

definition final :: "action list \<times> 's \<times> (exn + 'a) \<Rightarrow> 's" where
  "final r = fst (snd r)"

definition raised :: "action list \<times> 's \<times> (exn + 'a) \<Rightarrow> bool" where
  "raised r = (case snd (snd r) of Inl _ \<Rightarrow> True | Inr _ \<Rightarrow> False)"

subsection \<open>The manager's fields\<close>

text \<open>
  A timer handle is the positive integer \<open>setInterval\<close> returned, so a stored handle is
  truthy and \<open>null\<close> is \<open>None\<close>.
\<close>

record manager =
  authRefreshInterval :: "nat option"
  connectionPingInterval :: "nat option"
  lastActivity :: int
  isActive :: bool

subsection \<open>The auth-refresh interval callback (startAuthRefresh)\<close>

text \<open>\<open>session.expires_at ? session.expires_at * 1000 : 0\<close>: undefined and 0 are falsy.\<close>

definition expiresAt :: "session \<Rightarrow> int" where
  "expiresAt sess = (case expires_at sess of
       None \<Rightarrow> 0
     | Some e \<Rightarrow> if e \<noteq> 0 then e * 1000 else 0)"

definition timeUntilExpiry :: "env \<Rightarrow> session \<Rightarrow> int" where
  "timeUntilExpiry env sess = expiresAt sess - now env 0"

definition forceLogout :: "env \<Rightarrow> ('s, unit) js" where
  "forceLogout env =
     seq (call ImportLogoutUtils (importLogoutUtils env)) (\<lambda>_.
     seq (call PerformCompleteLogout (performCompleteLogout env)) (\<lambda>_.
     call ForceRedirectToHome (forceRedirectToHome env)))"

definition authRefreshTick :: "env \<Rightarrow> (manager, unit) js" where
  "authRefreshTick env =
     try_catch
       (seq (call GetSession (getSession env)) (\<lambda>(error, session).
          if error \<noteq> None then
            try_catch
              (seq (call RefreshSession (refreshSession env)) (\<lambda>_. ret ()))
              (\<lambda>recoverErr. ret ())
          else
            (case session of
               Some sess \<Rightarrow>
                 if timeUntilExpiry env sess < 5 * 60 * 1000
                    \<or> timeUntilExpiry env sess > 60 * 60 * 1000
                 then
                   seq (call RefreshSession (refreshSession env)) (\<lambda>refreshError.
                     if refreshError \<noteq> None then forceLogout env else ret ())
                 else ret ()
             | None \<Rightarrow> ret ())))
       (\<lambda>err. ret ())"

subsection \<open>The connection-ping interval callback (startConnectionPing)\<close>

definition raceProbe :: "env \<Rightarrow> ('s, pg_error option) js" where
  "raceProbe env = call ProbeQuery
     (case probe env of
        TimerFirst \<Rightarrow> Returns (Some (PgError (Some ''TIMEOUT'')))
      | QueryResolves error \<Rightarrow> Returns error
      | QueryRejects \<Rightarrow> Throws)"

definition connectionPingTick :: "env \<Rightarrow> (manager, unit) js" where
  "connectionPingTick env =
     try_catch
       (seq (raceProbe env) (\<lambda>error.
          case error of
            Some e \<Rightarrow>
              if err_code e = Some ''PGRST116'' then
                assign (\<lambda>m. m\<lparr>lastActivity := now env 0\<rparr>)
              else if err_code e = Some ''TIMEOUT'' then
                call ReconnectNow (reconnectNow env)
              else
                call ReconnectNow (reconnectNow env)
          | None \<Rightarrow> assign (\<lambda>m. m\<lparr>lastActivity := now env 0\<rparr>)))
       (\<lambda>err. call ReconnectNow (reconnectNowInCatch env))"

subsection \<open>The visibility listener and the idle check (setupVisibilityRefresh)\<close>

text \<open>
  Each call of \<open>setupVisibilityRefresh\<close> creates its own two local variables, shared by
  the listener and the interval callback it installs.
\<close>

record visScope =
  lastHiddenTime :: int
  lastVisibleTime :: int

datatype visibility = Visible | Hidden

definition newVisScope :: "int \<Rightarrow> visScope" where
  "newVisScope t = \<lparr>lastHiddenTime = 0, lastVisibleTime = t\<rparr>"

text \<open>
  \<open>getSession().then(async ... ).catch(console.error)\<close> of the listener. The call of
  \<open>getSession()\<close> itself is made where the chain is started.
\<close>

definition visibilitySessionRefresh :: "env \<Rightarrow> ('s, unit) js" where
  "visibilitySessionRefresh env =
     try_catch
       (seq (settle GetSession (getSession env)) (\<lambda>(error, session).
          case session of
            Some sess \<Rightarrow>
              seq (call RefreshSession (refreshSession env)) (\<lambda>refreshError.
                if refreshError \<noteq> None then forceLogout env else ret ())
          | None \<Rightarrow> ret ()))
       (\<lambda>err. ret ())"

definition hiddenDuration :: "env \<Rightarrow> visScope \<Rightarrow> int" where
  "hiddenDuration env c = now env 0 - lastHiddenTime c"

definition timeSinceLastVisible :: "env \<Rightarrow> visScope \<Rightarrow> int" where
  "timeSinceLastVisible env c = now env 1 - lastVisibleTime c"

definition onVisibilityChange :: "visibility \<Rightarrow> env \<Rightarrow> (visScope, unit) js" where
  "onVisibilityChange vis env =
     (if vis = Visible then
        (\<lambda>c.
           seq (if hiddenDuration env c > 1000 \<or> timeSinceLastVisible env c > 60000 then
                  then_later
                    (seq (issue GetSession) (\<lambda>_.
                     seq (call ReconnectNow (reconnectNow env)) (\<lambda>_.
                     issue (DispatchAppRefresh ''visibility-change''
                              (Some (hiddenDuration env c))))))
                    (visibilitySessionRefresh env)
                else ret ())
               (\<lambda>_. assign (\<lambda>c. c\<lparr>lastVisibleTime := now env 2\<rparr>))
               c)
      else assign (\<lambda>c. c\<lparr>lastHiddenTime := now env 0\<rparr>))"

text \<open>
  \<open>getSession().then(async ... refreshSession().catch(console.warn) ...).catch(console.warn)\<close>
  of the idle check.
\<close>

definition idleSessionRefresh :: "env \<Rightarrow> ('s, unit) js" where
  "idleSessionRefresh env =
     try_catch
       (seq (settle GetSession (getSession env)) (\<lambda>(error, session).
          case session of
            Some sess \<Rightarrow>
              try_catch
                (seq (call RefreshSession (refreshSession env)) (\<lambda>_. ret ()))
                (\<lambda>err. ret ())
          | None \<Rightarrow> ret ()))
       (\<lambda>err. ret ())"

definition timeSinceActivity :: "env \<Rightarrow> manager \<Rightarrow> int" where
  "timeSinceActivity env m = now env 0 - lastActivity m"

definition idleCheckTick :: "visibility \<Rightarrow> visScope \<Rightarrow> env \<Rightarrow> (manager, unit) js" where
  "idleCheckTick vis c env =
     (\<lambda>m.
        (let timeSinceVisible = now env 1 - lastVisibleTime c in
         if timeSinceActivity env m > 10 * 60 * 1000 \<and> vis = Visible then
           then_later
             (seq (issue GetSession) (\<lambda>_.
              seq (issue (DispatchAppRefresh ''idle-refresh'' None)) (\<lambda>_.
              assign (\<lambda>m. m\<lparr>lastActivity := now env 2\<rparr>))))
             (idleSessionRefresh env)
         else ret ())
        m)"

subsection \<open>The hosting page: timers, listeners, start and stop\<close>

text \<open>
  What the manager registers with the page: interval timers (handle, callback, period in
  ms) and event listeners. A visibility listener and an idle-check timer refer to the
  scope of the \<open>setupVisibilityRefresh\<close> call that installed them, by its index.
  \<open>log\<close> collects the actions of the callbacks that have run.
\<close>

datatype timer_kind = AuthRefreshTimer | ConnectionPingTimer | IdleCheckTimer nat

datatype listener = ActivityListener string | VisibilityListener nat

record page =
  mgr :: manager
  timers :: "(nat \<times> timer_kind \<times> int) list"
  nextHandle :: nat
  listeners :: "listener list"
  scopes :: "visScope list"
  visibilityState :: visibility
  log :: "action list"

text \<open>
  The module creates the singleton at load time: \<open>lastActivity = Date.now()\<close>, nothing
  registered. Handles are handed out from 1.
\<close>

definition newPage :: "int \<Rightarrow> visibility \<Rightarrow> page" where
  "newPage t v =
     \<lparr>mgr = \<lparr>authRefreshInterval = None, connectionPingInterval = None,
              lastActivity = t, isActive = False\<rparr>,
      timers = [], nextHandle = 1, listeners = [], scopes = [], visibilityState = v,
      log = []\<rparr>"

definition setInterval :: "timer_kind \<Rightarrow> int \<Rightarrow> page \<Rightarrow> nat \<times> page" where
  "setInterval k period p =
     (nextHandle p,
      p\<lparr>timers := timers p @ [(nextHandle p, k, period)], nextHandle := Suc (nextHandle p)\<rparr>)"

definition clearInterval :: "nat \<Rightarrow> page \<Rightarrow> page" where
  "clearInterval h p = p\<lparr>timers := filter (\<lambda>t. fst t \<noteq> h) (timers p)\<rparr>"

definition activityEvents :: "string list" where
  "activityEvents =
     [''mousedown'', ''mousemove'', ''keypress'', ''scroll'', ''touchstart'', ''click'']"

definition setupActivityTracking :: "page \<Rightarrow> page" where
  "setupActivityTracking p = p\<lparr>listeners := listeners p @ map ActivityListener activityEvents\<rparr>"

definition startAuthRefresh :: "page \<Rightarrow> page" where
  "startAuthRefresh p =
     (case setInterval AuthRefreshTimer (4 * 60 * 1000) p of
        (h, p') \<Rightarrow> p'\<lparr>mgr := (mgr p')\<lparr>authRefreshInterval := Some h\<rparr>\<rparr>)"

definition startConnectionPing :: "page \<Rightarrow> page" where
  "startConnectionPing p =
     (case setInterval ConnectionPingTimer 15000 p of
        (h, p') \<Rightarrow> p'\<lparr>mgr := (mgr p')\<lparr>connectionPingInterval := Some h\<rparr>\<rparr>)"

text \<open>The handle of the idle-check timer is not kept.\<close>

definition setupVisibilityRefresh :: "env \<Rightarrow> page \<Rightarrow> page" where
  "setupVisibilityRefresh env p =
     (let i = length (scopes p);
          p1 = p\<lparr>scopes := scopes p @ [newVisScope (now env 1)]\<rparr>;
          p2 = p1\<lparr>listeners := listeners p1 @ [VisibilityListener i]\<rparr>
      in snd (setInterval (IdleCheckTimer i) (5 * 60 * 1000) p2))"

definition start :: "env \<Rightarrow> page \<Rightarrow> page" where
  "start env p =
     (if isActive (mgr p) then p
      else
        (let p1 = p\<lparr>mgr := (mgr p)\<lparr>isActive := True\<rparr>\<rparr>;
             p2 = p1\<lparr>mgr := (mgr p1)\<lparr>lastActivity := now env 0\<rparr>\<rparr>;
             p3 = setupActivityTracking p2;
             p4 = startAuthRefresh p3;
             p5 = startConnectionPing p4
         in setupVisibilityRefresh env p5))"

text \<open>\<open>if (this.authRefreshInterval)\<close> tests the handle for truthiness: not null, not 0.\<close>

definition stop :: "page \<Rightarrow> page" where
  "stop p =
     (let p1 = p\<lparr>mgr := (mgr p)\<lparr>isActive := False\<rparr>\<rparr>;
          p2 = (case authRefreshInterval (mgr p1) of
                  Some h \<Rightarrow>
                    if h \<noteq> 0 then
                      (let q = clearInterval h p1
                       in q\<lparr>mgr := (mgr q)\<lparr>authRefreshInterval := None\<rparr>\<rparr>)
                    else p1
                | None \<Rightarrow> p1)
      in (case connectionPingInterval (mgr p2) of
            Some h \<Rightarrow>
              if h \<noteq> 0 then
                (let q = clearInterval h p2
                 in q\<lparr>mgr := (mgr q)\<lparr>connectionPingInterval := None\<rparr>\<rparr>)
              else p2
          | None \<Rightarrow> p2))"

definition getLastActivity :: "page \<Rightarrow> int" where
  "getLastActivity p = lastActivity (mgr p)"

definition getActive :: "page \<Rightarrow> bool" where
  "getActive p = isActive (mgr p)"

subsection \<open>What can happen to the page\<close>

text \<open>
  A pending timer fires and its callback runs; the document's visibility changes and every
  visibility listener runs, in the order of registration; a user input event of some type
  reaches the activity listeners registered for it (each sets \<open>lastActivity\<close> to its own
  reading of the clock); \<open>start()\<close> or \<open>stop()\<close> is called. A callback runs to its end
  before the next event.
\<close>

datatype event =
    Start env
  | Stop
  | TimerFires nat env
  | VisibilityChanges visibility "nat \<Rightarrow> env"
  | UserInput string env

fun runVisibilityListener :: "visibility \<Rightarrow> (nat \<Rightarrow> env) \<Rightarrow> listener \<Rightarrow> page \<Rightarrow> page" where
  "runVisibilityListener v envs (VisibilityListener i) p =
     (if i < length (scopes p)
      then (let r = onVisibilityChange v (envs i) (scopes p ! i)
            in p\<lparr>scopes := (scopes p)[i := final r], log := log p @ actions r\<rparr>)
      else p)"
| "runVisibilityListener v envs (ActivityListener ev) p = p"

definition fireTimer :: "nat \<Rightarrow> env \<Rightarrow> page \<Rightarrow> page" where
  "fireTimer h env p =
     (case map_of (timers p) h of
        None \<Rightarrow> p
      | Some (AuthRefreshTimer, period) \<Rightarrow>
          (let r = authRefreshTick env (mgr p)
           in p\<lparr>mgr := final r, log := log p @ actions r\<rparr>)
      | Some (ConnectionPingTimer, period) \<Rightarrow>
          (let r = connectionPingTick env (mgr p)
           in p\<lparr>mgr := final r, log := log p @ actions r\<rparr>)
      | Some (IdleCheckTimer i, period) \<Rightarrow>
          if i < length (scopes p)
          then (let r = idleCheckTick (visibilityState p) (scopes p ! i) env (mgr p)
                in p\<lparr>mgr := final r, log := log p @ actions r\<rparr>)
          else p)"

definition userInput :: "string \<Rightarrow> env \<Rightarrow> page \<Rightarrow> page" where
  "userInput ev env p =
     (let n = length (filter (\<lambda>l. l = ActivityListener ev) (listeners p))
      in if n = 0 then p else p\<lparr>mgr := (mgr p)\<lparr>lastActivity := now env (n - 1)\<rparr>\<rparr>)"

fun step :: "event \<Rightarrow> page \<Rightarrow> page" where
  "step (Start env) p = start env p"
| "step Stop p = stop p"
| "step (TimerFires h env) p = fireTimer h env p"
| "step (VisibilityChanges v envs) p =
     fold (runVisibilityListener v envs) (listeners p) (p\<lparr>visibilityState := v\<rparr>)"
| "step (UserInput ev env) p = userInput ev env p"

definition run :: "event list \<Rightarrow> page \<Rightarrow> page" where
  "run evs p = fold step evs p"

definition timersOf :: "(timer_kind \<Rightarrow> bool) \<Rightarrow> page \<Rightarrow> (nat \<times> timer_kind \<times> int) list" where
  "timersOf P p = filter (\<lambda>t. P (fst (snd t))) (timers p)"

text \<open>The interval timers of one kind that are pending.\<close>

definition authTimers :: "page \<Rightarrow> (nat \<times> timer_kind \<times> int) list" where
  "authTimers p = timersOf (\<lambda>k. k = AuthRefreshTimer) p"

definition pingTimers :: "page \<Rightarrow> (nat \<times> timer_kind \<times> int) list" where
  "pingTimers p = timersOf (\<lambda>k. k = ConnectionPingTimer) p"

subsection \<open>Vocabulary of the statements and sample inputs\<close>

text \<open>The session fetch is fulfilled and carries a session.\<close>

definition sessionPresent :: "env \<Rightarrow> bool" where
  "sessionPresent env = (case getSession env of
       Returns (error, Some sess) \<Rightarrow> True
     | _ \<Rightarrow> False)"

text \<open>The logout and the redirect are the effects on the whole application.\<close>

fun globalEffect :: "action \<Rightarrow> bool" where
  "globalEffect PerformCompleteLogout = True"
| "globalEffect ForceRedirectToHome = True"
| "globalEffect a = False"

fun isDispatch :: "action \<Rightarrow> bool" where
  "isDispatch (DispatchAppRefresh reason detail) = True"
| "isDispatch a = False"

text \<open>
  What start and stop maintain on the two timers whose handles the manager keeps: while it
  is active each is registered once, under the stored handle; otherwise neither is
  registered and no handle is stored.
\<close>

definition consistent :: "page \<Rightarrow> bool" where
  "consistent p \<longleftrightarrow>
     0 < nextHandle p \<and>
     (if isActive (mgr p)
      then (\<exists>ha hp. 0 < ha \<and> 0 < hp
              \<and> authRefreshInterval (mgr p) = Some ha
              \<and> connectionPingInterval (mgr p) = Some hp
              \<and> authTimers p = [(ha, AuthRefreshTimer, 4 * 60 * 1000)]
              \<and> pingTimers p = [(hp, ConnectionPingTimer, 15000)])
      else authRefreshInterval (mgr p) = None
         \<and> connectionPingInterval (mgr p) = None
         \<and> authTimers p = [] \<and> pingTimers p = [])"

text \<open>
  An environment in which the clock reads \<open>t\<close>, every collaborator answers without an
  error and the session expires at second 1700001800.
\<close>

definition calmEnv :: "int \<Rightarrow> env" where
  "calmEnv t =
     \<lparr>now = (\<lambda>k. t),
      getSession = Returns (None, Some \<lparr>expires_at = Some 1700001800\<rparr>),
      refreshSession = Returns None,
      importLogoutUtils = Returns (),
      performCompleteLogout = Returns (),
      forceRedirectToHome = Returns (),
      probe = QueryResolves None,
      reconnectNow = Returns (),
      reconnectNowInCatch = Returns ()\<rparr>"

definition runningManager :: "int \<Rightarrow> manager" where
  "runningManager t =
     \<lparr>authRefreshInterval = Some 1, connectionPingInterval = Some 2,
      lastActivity = t, isActive = True\<rparr>"

section \<open>Properties\<close>

lemmas js_defs = ret_def seq_def try_catch_def call_def assign_def issue_def settle_def
  then_later_def actions_def final_def raised_def

lemmas page_defs = start_def stop_def setupActivityTracking_def startAuthRefresh_def
  startConnectionPing_def setupVisibilityRefresh_def setInterval_def clearInterval_def
  authTimers_def pingTimers_def timersOf_def

subsection \<open>What the callbacks do, path by path\<close>

lemma forceLogout_actions:
  "actions (forceLogout env s) =
     ImportLogoutUtils #
     (case importLogoutUtils env of
        Throws \<Rightarrow> []
      | Returns u \<Rightarrow> PerformCompleteLogout #
          (case performCompleteLogout env of
             Throws \<Rightarrow> []
           | Returns u \<Rightarrow> [ForceRedirectToHome]))"
  by (simp add: forceLogout_def js_defs split: outcome.splits)

lemma authRefreshTick_fetched:
  assumes "getSession env = Returns (None, Some sess)"
  shows "actions (authRefreshTick env m) =
           (if timeUntilExpiry env sess < 5 * 60 * 1000 \<or> timeUntilExpiry env sess > 60 * 60 * 1000
            then GetSession # RefreshSession #
                 (case refreshSession env of
                    Returns (Some e) \<Rightarrow> actions (forceLogout env m)
                  | _ \<Rightarrow> [])
            else [GetSession])"
  using assms
  by (simp add: authRefreshTick_def js_defs
        split: outcome.splits option.splits prod.splits sum.splits)

lemma authRefreshTick_recovery:
  assumes "getSession env = Returns (Some e, s)"
  shows "actions (authRefreshTick env m) = [GetSession, RefreshSession]"
  using assms
  by (simp add: authRefreshTick_def js_defs
        split: outcome.splits option.splits prod.splits sum.splits)

lemma authRefreshTick_never_raises: "\<not> raised (authRefreshTick env m)"
  by (simp add: authRefreshTick_def forceLogout_def js_defs
        split: outcome.splits option.splits prod.splits sum.splits)

lemma authRefreshTick_final: "final (authRefreshTick env m) = m"
  by (simp add: authRefreshTick_def forceLogout_def js_defs
        split: outcome.splits option.splits prod.splits sum.splits)

lemma authRefreshTick_global_only_if:
  assumes "filter globalEffect (actions (authRefreshTick env m)) \<noteq> []"
  shows "\<exists>sess e. getSession env = Returns (None, Some sess)
           \<and> (timeUntilExpiry env sess < 5 * 60 * 1000 \<or> timeUntilExpiry env sess > 60 * 60 * 1000)
           \<and> refreshSession env = Returns (Some e)"
  using assms
  by (auto simp add: authRefreshTick_def forceLogout_def js_defs
        split: outcome.splits option.splits prod.splits sum.splits if_splits)

lemma connectionPingTick_raises_iff:
  "raised (connectionPingTick env m) \<longleftrightarrow>
     reconnectNowInCatch env = Throws \<and>
     (probe env = QueryRejects
      \<or> reconnectNow env = Throws \<and>
         (probe env = TimerFirst
          \<or> (\<exists>e. probe env = QueryResolves (Some e) \<and> err_code e \<noteq> Some ''PGRST116'')))"
  by (auto simp add: connectionPingTick_def raceProbe_def js_defs
        split: outcome.splits option.splits prod.splits sum.splits probe_race.splits)

lemma connectionPingTick_final:
  "final (connectionPingTick env m) = m
 \<or> final (connectionPingTick env m) = m\<lparr>lastActivity := now env 0\<rparr>"
  by (simp add: connectionPingTick_def raceProbe_def js_defs
        split: outcome.splits option.splits prod.splits sum.splits probe_race.splits)

lemma connectionPingTick_no_global:
  "filter globalEffect (actions (connectionPingTick env m)) = []"
  by (simp add: connectionPingTick_def raceProbe_def js_defs
        split: outcome.splits option.splits prod.splits sum.splits probe_race.splits)

lemma idleSessionRefresh_actions:
  "actions (idleSessionRefresh env s) = (if sessionPresent env then [RefreshSession] else [])"
  by (simp add: idleSessionRefresh_def sessionPresent_def js_defs
        split: outcome.splits option.splits prod.splits sum.splits)

lemma idleSessionRefresh_final: "final (idleSessionRefresh env s) = s"
  by (simp add: idleSessionRefresh_def js_defs
        split: outcome.splits option.splits prod.splits sum.splits)

lemma idleCheckTick_run:
  "(if now env 0 - lastActivity m > 10 * 60 * 1000 \<and> vis = Visible
    then actions (idleCheckTick vis c env m) =
           [GetSession, DispatchAppRefresh ''idle-refresh'' None]
           @ (if sessionPresent env then [RefreshSession] else [])
       \<and> \<not> raised (idleCheckTick vis c env m)
       \<and> final (idleCheckTick vis c env m) = m\<lparr>lastActivity := now env 2\<rparr>
    else actions (idleCheckTick vis c env m) = []
       \<and> \<not> raised (idleCheckTick vis c env m)
       \<and> final (idleCheckTick vis c env m) = m)"
  using idleSessionRefresh_actions[of env "m\<lparr>lastActivity := now env 2\<rparr>"]
        idleSessionRefresh_final[of env "m\<lparr>lastActivity := now env 2\<rparr>"]
  by (auto simp add: idleCheckTick_def timeSinceActivity_def js_defs split: prod.splits)

lemma idleCheckTick_no_global:
  "filter globalEffect (actions (idleCheckTick vis c env m)) = []"
  using idleCheckTick_run[of env m vis c]
  by (simp split: if_splits)

lemma visibilitySessionRefresh_actions:
  "actions (visibilitySessionRefresh env s) =
     (if sessionPresent env
      then RefreshSession #
           (case refreshSession env of
              Returns (Some e) \<Rightarrow> actions (forceLogout env s)
            | _ \<Rightarrow> [])
      else [])"
  by (simp add: visibilitySessionRefresh_def sessionPresent_def js_defs
        split: outcome.splits option.splits prod.splits sum.splits)

lemma visibilitySessionRefresh_final: "final (visibilitySessionRefresh env s) = s"
  by (simp add: visibilitySessionRefresh_def forceLogout_def js_defs
        split: outcome.splits option.splits prod.splits sum.splits)

lemma visibilitySessionRefresh_counts:
  "count_list (actions (visibilitySessionRefresh env s)) GetSession = 0
 \<and> count_list (actions (visibilitySessionRefresh env s)) ReconnectNow = 0
 \<and> count_list (actions (visibilitySessionRefresh env s)) RefreshSession =
       (if sessionPresent env then 1 else 0)
 \<and> filter isDispatch (actions (visibilitySessionRefresh env s)) = []"
  by (simp add: visibilitySessionRefresh_actions forceLogout_actions
        split: outcome.splits option.splits)

lemma onVisibilityChange_actions:
  "actions (onVisibilityChange Visible env c) =
     (if hiddenDuration env c > 1000 \<or> timeSinceLastVisible env c > 60000
      then GetSession # ReconnectNow #
           (case reconnectNow env of
              Returns u \<Rightarrow> [DispatchAppRefresh ''visibility-change'' (Some (hiddenDuration env c))]
            | Throws \<Rightarrow> [])
           @ actions (visibilitySessionRefresh env c)
      else [])"
  using visibilitySessionRefresh_actions[of env c]
  by (auto simp add: onVisibilityChange_def js_defs split: prod.splits outcome.splits)

lemma onVisibilityChange_hidden_actions: "actions (onVisibilityChange Hidden env c) = []"
  by (simp add: onVisibilityChange_def js_defs)

lemma onVisibilityChange_raised:
  "raised (onVisibilityChange vis env c) \<longleftrightarrow>
     vis = Visible \<and> (hiddenDuration env c > 1000 \<or> timeSinceLastVisible env c > 60000)
     \<and> reconnectNow env = Throws"
  by (auto simp add: onVisibilityChange_def js_defs split: prod.splits outcome.splits)

lemma onVisibilityChange_final:
  "final (onVisibilityChange vis env c) =
     (if vis = Visible
      then (if raised (onVisibilityChange vis env c) then c
            else c\<lparr>lastVisibleTime := now env 2\<rparr>)
      else c\<lparr>lastHiddenTime := now env 0\<rparr>)"
  using visibilitySessionRefresh_final[of env c]
  by (auto simp add: onVisibilityChange_def js_defs split: prod.splits outcome.splits)

lemma onVisibilityChange_global_only_if:
  assumes "filter globalEffect (actions (onVisibilityChange vis env c)) \<noteq> []"
  shows "vis = Visible
       \<and> (hiddenDuration env c > 1000 \<or> timeSinceLastVisible env c > 60000)
       \<and> sessionPresent env \<and> (\<exists>e. refreshSession env = Returns (Some e))"
  using assms
  by (auto simp add: onVisibilityChange_def visibilitySessionRefresh_def sessionPresent_def
        forceLogout_def js_defs
        split: outcome.splits option.splits prod.splits sum.splits if_splits)

subsection \<open>The session refresher\<close>

text \<open>
  Claim C3. On an auth-refresh tick whose session fetch succeeds and yields a session,
  \<open>timeUntilExpiry\<close> is the expiry minus the clock reading, and \<open>refreshSession\<close> is
  called (once) exactly when \<open>timeUntilExpiry\<close> is below 5 minutes or above 60 minutes;
  so a session expiring in 2 minutes is refreshed and one expiring in 30 minutes is not.
\<close>

theorem auth_refresh_iff_expiry_window:
  assumes "getSession env = Returns (None, Some sess)"
  shows "timeUntilExpiry env sess = expiresAt sess - now env 0
       \<and> count_list (actions (authRefreshTick env m)) RefreshSession =
           (if timeUntilExpiry env sess < 5 * 60 * 1000 \<or> timeUntilExpiry env sess > 60 * 60 * 1000
            then 1 else 0)
       \<and> (timeUntilExpiry env sess = 2 * 60 * 1000 \<longrightarrow>
             RefreshSession \<in> set (actions (authRefreshTick env m)))
       \<and> (timeUntilExpiry env sess = 30 * 60 * 1000 \<longrightarrow>
             RefreshSession \<notin> set (actions (authRefreshTick env m)))"
  by (simp add: authRefreshTick_fetched[OF assms] forceLogout_actions timeUntilExpiry_def
        split: outcome.splits option.splits)

text \<open>
  At 1700000000000 ms a session expiring at second 1700000120 has 2 minutes left, one
  expiring at second 1700001800 has 30 minutes left.
\<close>

theorem auth_refresh_iff_expiry_window_witness:
  "RefreshSession \<in> set (actions (authRefreshTick
       ((calmEnv 1700000000000)\<lparr>getSession := Returns (None, Some \<lparr>expires_at = Some 1700000120\<rparr>)\<rparr>)
       (runningManager 0)))
 \<and> RefreshSession \<notin> set (actions (authRefreshTick (calmEnv 1700000000000) (runningManager 0)))"
  using auth_refresh_iff_expiry_window
          [of "(calmEnv 1700000000000)\<lparr>getSession := Returns (None, Some \<lparr>expires_at = Some 1700000120\<rparr>)\<rparr>"
              "\<lparr>expires_at = Some 1700000120\<rparr>" "runningManager 0"]
        auth_refresh_iff_expiry_window
          [of "calmEnv 1700000000000" "\<lparr>expires_at = Some 1700001800\<rparr>" "runningManager 0"]
  by (simp add: calmEnv_def timeUntilExpiry_def expiresAt_def)

text \<open>
  Claim C9. On an auth-refresh tick whose fetched session has no expiry timestamp, the
  expiry is taken as 0, so (the clock reading being a positive epoch time)
  \<open>timeUntilExpiry\<close> is negative, below the 5-minute threshold, and \<open>refreshSession\<close> is
  called.
\<close>

theorem auth_refresh_without_expiry:
  assumes "getSession env = Returns (None, Some sess)"
      and "expires_at sess = None"
      and "0 < now env 0"
  shows "expiresAt sess = 0
       \<and> timeUntilExpiry env sess < 0
       \<and> timeUntilExpiry env sess < 5 * 60 * 1000
       \<and> count_list (actions (authRefreshTick env m)) RefreshSession = 1"
  using assms(2,3)
  by (simp add: authRefreshTick_fetched[OF assms(1)] forceLogout_actions timeUntilExpiry_def
        expiresAt_def split: outcome.splits option.splits)

theorem auth_refresh_without_expiry_witness:
  "count_list (actions (authRefreshTick
       ((calmEnv 1700000000000)\<lparr>getSession := Returns (None, Some \<lparr>expires_at = None\<rparr>)\<rparr>)
       (runningManager 0))) RefreshSession = 1"
  using auth_refresh_without_expiry
          [of "(calmEnv 1700000000000)\<lparr>getSession := Returns (None, Some \<lparr>expires_at = None\<rparr>)\<rparr>"
              "\<lparr>expires_at = None\<rparr>" "runningManager 0"]
  by (simp add: calmEnv_def)

text \<open>
  Claim C4, as amended. On an auth-refresh tick whose session fetch succeeded with a
  session, whose expiry test asked for a refresh and whose \<open>refreshSession\<close> call returned
  an error, the manager performs one complete logout followed by one redirect to home
  (when the logout utilities load and the logout completes), and this is the only path of
  the auth-refresh callback that does so: a failed recovery refresh after a failed session
  fetch does not. The visibility listener is the one other place that performs them, when
  its own \<open>refreshSession\<close> call returns an error; the connection ping and the idle check
  never do.
\<close>

theorem logout_and_redirect_paths:
  "(getSession env = Returns (None, Some sess)
      \<and> (timeUntilExpiry env sess < 5 * 60 * 1000 \<or> timeUntilExpiry env sess > 60 * 60 * 1000)
      \<and> refreshSession env = Returns (Some e)
      \<and> importLogoutUtils env = Returns ()
      \<and> performCompleteLogout env = Returns ()
    \<longrightarrow> filter globalEffect (actions (authRefreshTick env m)) =
          [PerformCompleteLogout, ForceRedirectToHome])
 \<and> (filter globalEffect (actions (authRefreshTick env m)) \<noteq> []
    \<longrightarrow> (\<exists>s' e'. getSession env = Returns (None, Some s')
           \<and> (timeUntilExpiry env s' < 5 * 60 * 1000 \<or> timeUntilExpiry env s' > 60 * 60 * 1000)
           \<and> refreshSession env = Returns (Some e')))
 \<and> (filter globalEffect (actions (onVisibilityChange vis env c)) \<noteq> []
    \<longrightarrow> vis = Visible
        \<and> (hiddenDuration env c > 1000 \<or> timeSinceLastVisible env c > 60000)
        \<and> sessionPresent env \<and> (\<exists>e'. refreshSession env = Returns (Some e')))
 \<and> filter globalEffect (actions (connectionPingTick env m)) = []
 \<and> filter globalEffect (actions (idleCheckTick vis c env m)) = []"
proof -
  have first: "getSession env = Returns (None, Some sess)
      \<and> (timeUntilExpiry env sess < 5 * 60 * 1000 \<or> timeUntilExpiry env sess > 60 * 60 * 1000)
      \<and> refreshSession env = Returns (Some e)
      \<and> importLogoutUtils env = Returns ()
      \<and> performCompleteLogout env = Returns ()
    \<longrightarrow> filter globalEffect (actions (authRefreshTick env m)) =
          [PerformCompleteLogout, ForceRedirectToHome]"
    by (auto simp add: authRefreshTick_fetched forceLogout_actions)
  show ?thesis
    using first authRefreshTick_global_only_if[of env m]
      onVisibilityChange_global_only_if[of vis env c]
      connectionPingTick_no_global[of env m] idleCheckTick_no_global[of vis c env m]
    by blast
qed

text \<open>
  A session that expired two minutes ago and a refresh that returns an error: logout, then
  redirect.
\<close>

theorem logout_and_redirect_paths_witness:
  "filter globalEffect (actions (authRefreshTick
       ((calmEnv 1700001920000)\<lparr>refreshSession := Returns (Some (AuthError ''refresh''))\<rparr>)
       (runningManager 0))) =
     [PerformCompleteLogout, ForceRedirectToHome]"
  using logout_and_redirect_paths
          [of "(calmEnv 1700001920000)\<lparr>refreshSession := Returns (Some (AuthError ''refresh''))\<rparr>"
              "\<lparr>expires_at = Some 1700001800\<rparr>" "AuthError ''refresh''" "runningManager 0"]
  by (simp add: calmEnv_def timeUntilExpiry_def expiresAt_def)

text \<open>
  Against the claim as stated: the recovery refresh after a failed session fetch may fail
  without any logout, and the visibility listener performs logout and redirect too.
\<close>

theorem logout_paths_counterexample:
  "count_list (actions (authRefreshTick
       ((calmEnv 1700000000000)\<lparr>getSession := Returns (Some (AuthError ''fetch''), None),
                                 refreshSession := Returns (Some (AuthError ''refresh''))\<rparr>)
       (runningManager 0))) RefreshSession = 1
 \<and> filter globalEffect (actions (authRefreshTick
       ((calmEnv 1700000000000)\<lparr>getSession := Returns (Some (AuthError ''fetch''), None),
                                 refreshSession := Returns (Some (AuthError ''refresh''))\<rparr>)
       (runningManager 0))) = []
 \<and> filter globalEffect (actions (onVisibilityChange Visible
       ((calmEnv 1700000065000)\<lparr>refreshSession := Returns (Some (AuthError ''refresh''))\<rparr>)
       \<lparr>lastHiddenTime = 1700000000000, lastVisibleTime = 1699999990000\<rparr>)) =
     [PerformCompleteLogout, ForceRedirectToHome]"
  by (simp add: authRefreshTick_recovery onVisibilityChange_actions
        visibilitySessionRefresh_actions forceLogout_actions sessionPresent_def calmEnv_def
        hiddenDuration_def timeSinceLastVisible_def)

subsection \<open>The connection prober\<close>

text \<open>
  The connection ping, outcome by outcome, as long as the call of \<open>reconnectNow\<close> that is
  reached returns: a successful query, the "no rows returned" error \<open>PGRST116\<close> counting as
  success, sets \<open>lastActivity\<close> to the clock reading and calls no \<open>reconnectNow\<close>; a
  timeout, any other error and a rejected query call \<open>reconnectNow\<close> once and raise
  nothing.
\<close>

lemma connectionPingTick_outcomes:
  "(probe env = QueryResolves None
      \<or> probe env = QueryResolves (Some (PgError (Some ''PGRST116'')))
    \<longrightarrow> lastActivity (final (connectionPingTick env m)) = now env 0
        \<and> count_list (actions (connectionPingTick env m)) ReconnectNow = 0
        \<and> \<not> raised (connectionPingTick env m))
 \<and> ((probe env = TimerFirst
       \<or> (\<exists>e. probe env = QueryResolves (Some e) \<and> err_code e \<noteq> Some ''PGRST116''))
      \<and> reconnectNow env = Returns ()
    \<longrightarrow> count_list (actions (connectionPingTick env m)) ReconnectNow = 1
        \<and> \<not> raised (connectionPingTick env m)
        \<and> final (connectionPingTick env m) = m)
 \<and> (probe env = QueryRejects \<and> reconnectNowInCatch env = Returns ()
    \<longrightarrow> count_list (actions (connectionPingTick env m)) ReconnectNow = 1
        \<and> \<not> raised (connectionPingTick env m)
        \<and> final (connectionPingTick env m) = m)"
  by (auto simp add: connectionPingTick_def raceProbe_def js_defs
        split: outcome.splits option.splits prod.splits sum.splits)

text \<open>
  Claim C5. On a connection-probe tick, a successful probe ("no rows returned" included)
  updates \<open>lastActivity\<close> and invokes no \<open>reconnectNow\<close>; a probe that times out or
  returns any other error invokes \<open>reconnectNow\<close> exactly once and raises nothing to the
  caller. On the code the first half holds, and the second holds whenever the call of
  \<open>reconnectNow\<close> returns (\<open>connectionPingTick_outcomes\<close>). When the probe times out and
  \<open>reconnectNow\<close> throws, the \<open>catch\<close> handler around the whole body calls it a second
  time, and a second exception is raised to the caller.
\<close>

theorem connection_ping_reconnects_twice_when_reconnect_throws:
  "count_list (actions (connectionPingTick
       ((calmEnv t)\<lparr>probe := TimerFirst, reconnectNow := Throws, reconnectNowInCatch := Throws\<rparr>) m))
     ReconnectNow = 2
 \<and> raised (connectionPingTick
       ((calmEnv t)\<lparr>probe := TimerFirst, reconnectNow := Throws, reconnectNowInCatch := Throws\<rparr>) m)"
  by (simp add: connectionPingTick_def raceProbe_def calmEnv_def js_defs)

text \<open>
  Claim C8. No exception leaves the auth-refresh callback or the connection-ping callback,
  whatever the collaborators answer. The auth-refresh callback keeps this
  (\<open>authRefreshTick_never_raises\<close>). The connection-ping callback does not: its \<open>catch\<close>
  handler calls \<open>reconnectNow\<close> outside any \<open>try\<close>, so when the probe query rejects and
  \<open>reconnectNow\<close> throws, that exception leaves the callback
  (\<open>connectionPingTick_raises_iff\<close> lists all such cases).
\<close>

theorem connection_ping_raises_when_reconnect_throws:
  "actions (connectionPingTick
       ((calmEnv t)\<lparr>probe := QueryRejects, reconnectNowInCatch := Throws\<rparr>) m) =
     [ProbeQuery, ReconnectNow]
 \<and> raised (connectionPingTick
       ((calmEnv t)\<lparr>probe := QueryRejects, reconnectNowInCatch := Throws\<rparr>) m)"
  by (simp add: connectionPingTick_def raceProbe_def calmEnv_def js_defs)

subsection \<open>The visibility listener and the idle check\<close>

text \<open>
  Claim C6, as amended. Each time the visibility listener runs for a change to visible, it
  performs the recovery actions if and only if the hidden duration (the clock reading
  minus \<open>lastHiddenTime\<close>) exceeds 1000 ms or the time since last visible (the next clock
  reading minus \<open>lastVisibleTime\<close>) exceeds 60000 ms. It then fetches the session once and
  calls \<open>refreshSession\<close> once when the fetch yields a session, not at all otherwise; it
  calls \<open>reconnectNow\<close> once; and, that call returning, it broadcasts once, with reason
  "visibility-change" and the hidden duration. When the test fails it performs no action.
\<close>

theorem visibility_recovery_when_due:
  "(if now env 0 - lastHiddenTime c > 1000 \<or> now env 1 - lastVisibleTime c > 60000
    then count_list (actions (onVisibilityChange Visible env c)) GetSession = 1
       \<and> count_list (actions (onVisibilityChange Visible env c)) ReconnectNow = 1
       \<and> count_list (actions (onVisibilityChange Visible env c)) RefreshSession =
             (if sessionPresent env then 1 else 0)
       \<and> (reconnectNow env = Returns () \<longrightarrow>
             filter isDispatch (actions (onVisibilityChange Visible env c)) =
               [DispatchAppRefresh ''visibility-change'' (Some (now env 0 - lastHiddenTime c))])
    else actions (onVisibilityChange Visible env c) = [])"
  using visibilitySessionRefresh_counts[of env c]
  by (simp add: onVisibilityChange_actions hiddenDuration_def timeSinceLastVisible_def
        split: outcome.splits)

text \<open>
  The clock reads 1700000065000, 1700000065001, ... at successive readings. Hidden 65
  seconds ago: recovery, through the first test. Hidden half a second ago and last visible
  100 seconds before: recovery, through the second test alone. Hidden exactly 1000 ms ago
  and last visible exactly 60000 ms before the second reading: nothing.
\<close>

theorem visibility_recovery_when_due_witness:
  "actions (onVisibilityChange Visible
       ((calmEnv 0)\<lparr>now := (\<lambda>k. 1700000065000 + int k)\<rparr>)
       \<lparr>lastHiddenTime = 1700000000000, lastVisibleTime = 1700000064000\<rparr>) =
     [GetSession, ReconnectNow, DispatchAppRefresh ''visibility-change'' (Some 65000),
      RefreshSession]
 \<and> actions (onVisibilityChange Visible
       ((calmEnv 0)\<lparr>now := (\<lambda>k. 1700000065000 + int k)\<rparr>)
       \<lparr>lastHiddenTime = 1700000064500, lastVisibleTime = 1699999965000\<rparr>) =
     [GetSession, ReconnectNow, DispatchAppRefresh ''visibility-change'' (Some 500),
      RefreshSession]
 \<and> actions (onVisibilityChange Visible
       ((calmEnv 0)\<lparr>now := (\<lambda>k. 1700000065000 + int k)\<rparr>)
       \<lparr>lastHiddenTime = 1700000064000, lastVisibleTime = 1700000005001\<rparr>) = []"
proof -
  let ?env = "(calmEnv 0)\<lparr>now := (\<lambda>k. 1700000065000 + int k)\<rparr>"
  have present: "sessionPresent ?env"
    by (simp add: calmEnv_def sessionPresent_def)
  have returns: "reconnectNow ?env = Returns ()"
    by (simp add: calmEnv_def)
  have chain: "actions (visibilitySessionRefresh ?env c) = [RefreshSession]" for c :: visScope
    by (simp add: visibilitySessionRefresh_actions present) (simp add: calmEnv_def)
  have first: "filter isDispatch (actions (onVisibilityChange Visible ?env
       \<lparr>lastHiddenTime = 1700000000000, lastVisibleTime = 1700000064000\<rparr>)) =
     [DispatchAppRefresh ''visibility-change'' (Some 65000)]"
    using visibility_recovery_when_due
            [of ?env "\<lparr>lastHiddenTime = 1700000000000, lastVisibleTime = 1700000064000\<rparr>"]
          returns
    by simp
  have second: "filter isDispatch (actions (onVisibilityChange Visible ?env
       \<lparr>lastHiddenTime = 1700000064500, lastVisibleTime = 1699999965000\<rparr>)) =
     [DispatchAppRefresh ''visibility-change'' (Some 500)]"
    using visibility_recovery_when_due
            [of ?env "\<lparr>lastHiddenTime = 1700000064500, lastVisibleTime = 1699999965000\<rparr>"]
          returns
    by simp
  have third: "actions (onVisibilityChange Visible ?env
       \<lparr>lastHiddenTime = 1700000064000, lastVisibleTime = 1700000005001\<rparr>) = []"
    using visibility_recovery_when_due
            [of ?env "\<lparr>lastHiddenTime = 1700000064000, lastVisibleTime = 1700000005001\<rparr>"]
    by simp
  show ?thesis
    using first second third
    by (simp add: onVisibilityChange_actions chain returns hiddenDuration_def
          timeSinceLastVisible_def)
qed

text \<open>
  Against the claim as stated: the same event with no session to be fetched qualifies and
  is answered without any call of \<open>refreshSession\<close>.
\<close>

theorem visibility_refresh_needs_session_counterexample:
  "1000 < now ((calmEnv 1700000065000)\<lparr>getSession := Returns (None, None)\<rparr>) 0
          - lastHiddenTime \<lparr>lastHiddenTime = 1700000000000, lastVisibleTime = 1699999990000\<rparr>
 \<and> actions (onVisibilityChange Visible
         ((calmEnv 1700000065000)\<lparr>getSession := Returns (None, None)\<rparr>)
         \<lparr>lastHiddenTime = 1700000000000, lastVisibleTime = 1699999990000\<rparr>) =
     [GetSession, ReconnectNow, DispatchAppRefresh ''visibility-change'' (Some 65000)]
 \<and> count_list (actions (onVisibilityChange Visible
         ((calmEnv 1700000065000)\<lparr>getSession := Returns (None, None)\<rparr>)
         \<lparr>lastHiddenTime = 1700000000000, lastVisibleTime = 1699999990000\<rparr>))
       RefreshSession = 0"
  by (simp add: onVisibilityChange_actions visibilitySessionRefresh_actions sessionPresent_def
        calmEnv_def hiddenDuration_def timeSinceLastVisible_def)

text \<open>
  Claim C10, as amended. \<open>lastHiddenTime\<close> starts at 0, so as long as no change to hidden
  has been seen, the hidden duration computed on a change to visible is the clock reading
  itself, which (an epoch time in ms) exceeds 1000: the recovery path is entered whatever
  the real hidden time was. On it the session is fetched once and \<open>reconnectNow\<close> is called
  once; \<open>refreshSession\<close> is called once when the fetch yields a session and not at all
  otherwise; and, the call of \<open>reconnectNow\<close> returning, the broadcast is made once, with
  the clock reading as hidden duration.
\<close>

theorem first_visible_event_recovers:
  assumes "1000 < now env 0" and "lastHiddenTime c = 0"
  shows "lastHiddenTime (newVisScope t) = 0
       \<and> now env 0 - lastHiddenTime c = now env 0
       \<and> 1000 < now env 0 - lastHiddenTime c
       \<and> count_list (actions (onVisibilityChange Visible env c)) GetSession = 1
       \<and> count_list (actions (onVisibilityChange Visible env c)) ReconnectNow = 1
       \<and> count_list (actions (onVisibilityChange Visible env c)) RefreshSession =
             (if sessionPresent env then 1 else 0)
       \<and> (reconnectNow env = Returns () \<longrightarrow>
             filter isDispatch (actions (onVisibilityChange Visible env c)) =
               [DispatchAppRefresh ''visibility-change'' (Some (now env 0))])"
  using assms visibilitySessionRefresh_counts[of env c]
  by (simp add: onVisibilityChange_actions hiddenDuration_def newVisScope_def
        split: outcome.splits)

text \<open>
  The scope was created 10 ms before the event, and the tab was never hidden: the
  broadcast carries 1700000000000 ms as hidden duration.
\<close>

theorem first_visible_event_recovers_witness:
  "filter isDispatch (actions (onVisibilityChange Visible (calmEnv 1700000000000)
       (newVisScope 1699999999990))) =
     [DispatchAppRefresh ''visibility-change'' (Some 1700000000000)]
 \<and> count_list (actions (onVisibilityChange Visible (calmEnv 1700000000000)
       (newVisScope 1699999999990))) RefreshSession = 1"
  using first_visible_event_recovers
          [of "calmEnv 1700000000000" "newVisScope 1699999999990" 0]
  by (simp add: calmEnv_def newVisScope_def sessionPresent_def)

text \<open>
  Against the claim as stated: on that first event, with no session to be fetched, the
  recovery path is entered and no \<open>refreshSession\<close> call is made.
\<close>

theorem first_visible_event_without_session_counterexample:
  "lastHiddenTime (newVisScope 1699999999990) = 0
 \<and> actions (onVisibilityChange Visible
       ((calmEnv 1700000000000)\<lparr>getSession := Returns (None, None)\<rparr>)
       (newVisScope 1699999999990)) =
     [GetSession, ReconnectNow, DispatchAppRefresh ''visibility-change'' (Some 1700000000000)]
 \<and> RefreshSession \<notin> set (actions (onVisibilityChange Visible
       ((calmEnv 1700000000000)\<lparr>getSession := Returns (None, None)\<rparr>)
       (newVisScope 1699999999990)))"
  by (simp add: onVisibilityChange_actions visibilitySessionRefresh_actions sessionPresent_def
        calmEnv_def newVisScope_def hiddenDuration_def timeSinceLastVisible_def)

text \<open>
  Claim C7, as amended. On an idle-check tick, if the clock reading minus \<open>lastActivity\<close>
  exceeds 10 minutes and the tab is visible, the manager fetches the session and calls
  \<open>refreshSession\<close> when, and only when, the fetch yields one (best effort: whatever the
  answers, nothing is raised), broadcasts the refresh notification with reason
  "idle-refresh", and sets \<open>lastActivity\<close> to the clock reading taken last; if either
  condition fails, it does none of these.
\<close>

theorem idle_check_refreshes_when_idle_and_visible:
  "(if now env 0 - lastActivity m > 10 * 60 * 1000 \<and> vis = Visible
    then actions (idleCheckTick vis c env m) =
           [GetSession, DispatchAppRefresh ''idle-refresh'' None]
           @ (if sessionPresent env then [RefreshSession] else [])
       \<and> \<not> raised (idleCheckTick vis c env m)
       \<and> final (idleCheckTick vis c env m) = m\<lparr>lastActivity := now env 2\<rparr>
    else actions (idleCheckTick vis c env m) = []
       \<and> \<not> raised (idleCheckTick vis c env m)
       \<and> final (idleCheckTick vis c env m) = m)"
  by (rule idleCheckTick_run)

text \<open>
  The clock reads 1700000660000, 1700000660001, 1700000660002 at the three readings of
  the tick. Eleven minutes without activity, tab visible: the refresh path, and
  \<open>lastActivity\<close> becomes the third reading. The same with the tab hidden: nothing. Tab
  visible and the last activity exactly ten minutes, or one second, before: nothing.
\<close>

theorem idle_check_refreshes_when_idle_and_visible_witness:
  "actions (idleCheckTick Visible (newVisScope 0)
       ((calmEnv 0)\<lparr>now := (\<lambda>k. 1700000660000 + int k)\<rparr>) (runningManager 1700000000000)) =
     [GetSession, DispatchAppRefresh ''idle-refresh'' None, RefreshSession]
 \<and> lastActivity (final (idleCheckTick Visible (newVisScope 0)
       ((calmEnv 0)\<lparr>now := (\<lambda>k. 1700000660000 + int k)\<rparr>) (runningManager 1700000000000))) =
     1700000660002
 \<and> actions (idleCheckTick Hidden (newVisScope 0)
       ((calmEnv 0)\<lparr>now := (\<lambda>k. 1700000660000 + int k)\<rparr>) (runningManager 1700000000000)) = []
 \<and> actions (idleCheckTick Visible (newVisScope 0)
       ((calmEnv 0)\<lparr>now := (\<lambda>k. 1700000660000 + int k)\<rparr>) (runningManager 1700000060000)) = []
 \<and> final (idleCheckTick Visible (newVisScope 0)
       ((calmEnv 0)\<lparr>now := (\<lambda>k. 1700000660000 + int k)\<rparr>) (runningManager 1700000659000)) =
     runningManager 1700000659000"
  using idle_check_refreshes_when_idle_and_visible
          [of "(calmEnv 0)\<lparr>now := (\<lambda>k. 1700000660000 + int k)\<rparr>"
              "runningManager 1700000000000" Visible "newVisScope 0"]
        idle_check_refreshes_when_idle_and_visible
          [of "(calmEnv 0)\<lparr>now := (\<lambda>k. 1700000660000 + int k)\<rparr>"
              "runningManager 1700000000000" Hidden "newVisScope 0"]
        idle_check_refreshes_when_idle_and_visible
          [of "(calmEnv 0)\<lparr>now := (\<lambda>k. 1700000660000 + int k)\<rparr>"
              "runningManager 1700000060000" Visible "newVisScope 0"]
        idle_check_refreshes_when_idle_and_visible
          [of "(calmEnv 0)\<lparr>now := (\<lambda>k. 1700000660000 + int k)\<rparr>"
              "runningManager 1700000659000" Visible "newVisScope 0"]
  by (simp add: calmEnv_def runningManager_def sessionPresent_def)

text \<open>
  Against the claim as stated: eleven minutes without activity, tab visible, and no
  session to be fetched: the tick broadcasts and resets \<open>lastActivity\<close> without any call of
  \<open>refreshSession\<close>.
\<close>

theorem idle_refresh_needs_session_counterexample:
  "600000 < now ((calmEnv 1700000660000)\<lparr>getSession := Returns (None, None)\<rparr>) 0
            - lastActivity (runningManager 1700000000000)
 \<and> actions (idleCheckTick Visible (newVisScope 0)
       ((calmEnv 1700000660000)\<lparr>getSession := Returns (None, None)\<rparr>)
       (runningManager 1700000000000)) =
     [GetSession, DispatchAppRefresh ''idle-refresh'' None]
 \<and> RefreshSession \<notin> set (actions (idleCheckTick Visible (newVisScope 0)
       ((calmEnv 1700000660000)\<lparr>getSession := Returns (None, None)\<rparr>)
       (runningManager 1700000000000)))"
proof -
  have run: "actions (idleCheckTick Visible (newVisScope 0)
       ((calmEnv 1700000660000)\<lparr>getSession := Returns (None, None)\<rparr>)
       (runningManager 1700000000000)) =
     [GetSession, DispatchAppRefresh ''idle-refresh'' None]"
    using idleCheckTick_run
            [of "(calmEnv 1700000660000)\<lparr>getSession := Returns (None, None)\<rparr>"
                "runningManager 1700000000000" Visible "newVisScope 0"]
    by (simp add: calmEnv_def runningManager_def sessionPresent_def)
  show ?thesis
    by (simp add: run) (simp add: calmEnv_def runningManager_def)
qed

subsection \<open>Lifecycle: start and stop\<close>

lemma consistent_newPage: "consistent (newPage t v)"
  by (simp add: consistent_def newPage_def authTimers_def pingTimers_def timersOf_def)

lemma start_active: "isActive (mgr (start env p))"
  by (simp add: page_defs Let_def)

lemma start_idem: "start e2 (start e1 p) = start e1 p"
  using start_active[of e1 p] by (simp add: start_def[of e2])

lemma consistent_start: "consistent p \<Longrightarrow> consistent (start env p)"
  by (auto simp add: consistent_def page_defs Let_def)

lemma filter_one_cleared:
  "filter P xs = [x] \<Longrightarrow> \<not> Q x \<Longrightarrow> filter (\<lambda>t. Q t \<and> P t) xs = []"
  by (induction xs) (auto split: if_splits simp: filter_empty_conv)

lemma stop_running:
  assumes "authRefreshInterval (mgr p) = Some ha" and "0 < ha"
      and "connectionPingInterval (mgr p) = Some hp" and "0 < hp"
  shows "stop p = p\<lparr>mgr := (mgr p)\<lparr>isActive := False, authRefreshInterval := None,
                                   connectionPingInterval := None\<rparr>,
                   timers := filter (\<lambda>t. fst t \<noteq> hp) (filter (\<lambda>t. fst t \<noteq> ha) (timers p))\<rparr>"
  using assms by (simp add: stop_def clearInterval_def Let_def)

lemma stop_idle:
  assumes "authRefreshInterval (mgr p) = None" and "connectionPingInterval (mgr p) = None"
  shows "stop p = p\<lparr>mgr := (mgr p)\<lparr>isActive := False\<rparr>\<rparr>"
  using assms by (simp add: stop_def Let_def)

lemma consistent_stop:
  assumes "consistent p"
  shows "consistent (stop p)"
proof (cases "isActive (mgr p)")
  case True
  with assms obtain ha hp where h: "0 < ha" "0 < hp"
      "authRefreshInterval (mgr p) = Some ha" "connectionPingInterval (mgr p) = Some hp"
      "authTimers p = [(ha, AuthRefreshTimer, 4 * 60 * 1000)]"
      "pingTimers p = [(hp, ConnectionPingTimer, 15000)]"
    unfolding consistent_def by auto
  have a: "filter (\<lambda>t. fst (snd t) = AuthRefreshTimer)
             (filter (\<lambda>t. fst t \<noteq> hp) (filter (\<lambda>t. fst t \<noteq> ha) (timers p))) = []"
    using filter_one_cleared[of "\<lambda>t. fst (snd t) = AuthRefreshTimer" "timers p"
            "(ha, AuthRefreshTimer, 4 * 60 * 1000)" "\<lambda>t. fst t \<noteq> ha \<and> fst t \<noteq> hp"] h(5)
    unfolding authTimers_def timersOf_def by (simp add: conj_assoc)
  have b: "filter (\<lambda>t. fst (snd t) = ConnectionPingTimer)
             (filter (\<lambda>t. fst t \<noteq> hp) (filter (\<lambda>t. fst t \<noteq> ha) (timers p))) = []"
    using filter_one_cleared[of "\<lambda>t. fst (snd t) = ConnectionPingTimer" "timers p"
            "(hp, ConnectionPingTimer, 15000)" "\<lambda>t. fst t \<noteq> ha \<and> fst t \<noteq> hp"] h(6)
    unfolding pingTimers_def timersOf_def by (simp add: conj_assoc)
  from assms have n: "0 < nextHandle p" unfolding consistent_def by simp
  show ?thesis
    using a b n
    by (simp add: stop_running[OF h(3) h(1) h(4) h(2)] consistent_def authTimers_def
          pingTimers_def timersOf_def)
next
  case False
  with assms have h: "authRefreshInterval (mgr p) = None" "connectionPingInterval (mgr p) = None"
      "authTimers p = []" "pingTimers p = []" "0 < nextHandle p"
    unfolding consistent_def by auto
  show ?thesis
    using h(3,4,5)
    by (simp add: stop_idle[OF h(1,2)] consistent_def h(1,2) authTimers_def pingTimers_def
          timersOf_def)
qed

lemma tick_keeps_handles:
  assumes "m' = m \<or> m' = m\<lparr>lastActivity := t\<rparr>"
  shows "consistent (p\<lparr>mgr := m'\<rparr>) = consistent (p\<lparr>mgr := m\<rparr>)"
  using assms by (auto simp add: consistent_def authTimers_def pingTimers_def timersOf_def)

lemma consistent_log: "consistent (p\<lparr>log := l\<rparr>) = consistent p"
  by (simp add: consistent_def authTimers_def pingTimers_def timersOf_def)

lemma consistent_fireTimer:
  assumes "consistent p"
  shows "consistent (fireTimer h env p)"
proof -
  have same: "consistent (p\<lparr>mgr := mgr p\<rparr>)"
    using assms by simp
  have auth: "consistent (p\<lparr>mgr := final (authRefreshTick env (mgr p))\<rparr>)"
    using same by (simp add: authRefreshTick_final)
  have ping: "consistent (p\<lparr>mgr := final (connectionPingTick env (mgr p))\<rparr>)"
    using same tick_keeps_handles[OF connectionPingTick_final[of env "mgr p"], of p] by simp
  have idle: "consistent (p\<lparr>mgr := final (idleCheckTick (visibilityState p) c env (mgr p))\<rparr>)" for c
  proof -
    have "final (idleCheckTick (visibilityState p) c env (mgr p)) = mgr p
        \<or> final (idleCheckTick (visibilityState p) c env (mgr p)) = (mgr p)\<lparr>lastActivity := now env 2\<rparr>"
      using idleCheckTick_run[of env "mgr p" "visibilityState p" c] by (simp split: if_splits)
    from tick_keeps_handles[OF this, of p] same show ?thesis by simp
  qed
  have logged: "consistent (q\<lparr>log := l\<rparr>)" if "consistent q" for q l
    using that by (simp add: consistent_log)
  show ?thesis
    using assms logged[OF auth] logged[OF ping] logged[OF idle]
    by (simp add: fireTimer_def Let_def split: option.splits prod.splits timer_kind.splits)
qed

lemma runVisibilityListener_keeps:
  "mgr (runVisibilityListener v envs l p) = mgr p
 \<and> timers (runVisibilityListener v envs l p) = timers p
 \<and> nextHandle (runVisibilityListener v envs l p) = nextHandle p"
  by (cases l) (simp_all add: Let_def)

lemma fold_runVisibilityListener_keeps:
  "mgr (fold (runVisibilityListener v envs) ls p) = mgr p
 \<and> timers (fold (runVisibilityListener v envs) ls p) = timers p
 \<and> nextHandle (fold (runVisibilityListener v envs) ls p) = nextHandle p"
  by (induction ls arbitrary: p) (simp_all add: runVisibilityListener_keeps)

lemma consistent_cong:
  assumes "mgr q = mgr p" and "timers q = timers p" and "nextHandle q = nextHandle p"
  shows "consistent q = consistent p"
  using assms by (simp add: consistent_def authTimers_def pingTimers_def timersOf_def)

lemma consistent_step:
  assumes "consistent p"
  shows "consistent (step ev p)"
proof (cases ev)
  case (Start env)
  then show ?thesis using assms by (simp add: consistent_start)
next
  case Stop
  then show ?thesis using assms by (simp add: consistent_stop)
next
  case (TimerFires h env)
  then show ?thesis using assms by (simp add: consistent_fireTimer)
next
  case (VisibilityChanges v envs)
  have "consistent (fold (runVisibilityListener v envs) (listeners p) (p\<lparr>visibilityState := v\<rparr>))
        = consistent p"
    by (rule consistent_cong) (simp_all add: fold_runVisibilityListener_keeps)
  with VisibilityChanges assms show ?thesis by simp
next
  case (UserInput name env)
  have "consistent (userInput name env p) = consistent p"
    using tick_keeps_handles[of "mgr p" "mgr p" _ p]
          tick_keeps_handles[of "(mgr p)\<lparr>lastActivity := t\<rparr>" "mgr p" t p for t]
    by (simp add: userInput_def Let_def)
  with UserInput assms show ?thesis by simp
qed

lemma consistent_run: "consistent p \<Longrightarrow> consistent (run evs p)"
  unfolding run_def by (induction evs arbitrary: p) (simp_all add: consistent_step)

lemma start_one_timer_each:
  assumes "consistent p"
  shows "length (authTimers (start env p)) = 1 \<and> length (pingTimers (start env p)) = 1"
  using consistent_start[OF assms, of env] start_active[of env p]
  by (auto simp add: consistent_def)

text \<open>
  Claim C2. \<open>start()\<close> is idempotent: on a manager that is already running it changes
  nothing, and in every state the page can reach, two calls of \<open>start()\<close> in succession
  leave exactly one auth-refresh interval timer and exactly one connection-ping interval
  timer pending.
\<close>

theorem start_twice_one_timer_each:
  "start e2 (start e1 (run evs (newPage t v))) = start e1 (run evs (newPage t v))
 \<and> length (authTimers (start e2 (start e1 (run evs (newPage t v))))) = 1
 \<and> length (pingTimers (start e2 (start e1 (run evs (newPage t v))))) = 1
 \<and> (getActive p \<longrightarrow> start env p = p)"
  using start_one_timer_each[OF consistent_run[OF consistent_newPage], of e1 evs t v]
  by (simp add: start_idem) (simp add: start_def getActive_def)

theorem start_twice_one_timer_each_witness:
  "length (authTimers (start (calmEnv 3) (start (calmEnv 2)
       (run [Start (calmEnv 0), Stop] (newPage 0 Visible))))) = 1
 \<and> length (pingTimers (start (calmEnv 3) (start (calmEnv 2)
       (run [Start (calmEnv 0), Stop] (newPage 0 Visible))))) = 1
 \<and> getActive (start (calmEnv 2) (newPage 0 Visible))
 \<and> start (calmEnv 5) (start (calmEnv 2) (newPage 0 Visible)) = start (calmEnv 2) (newPage 0 Visible)"
  using start_twice_one_timer_each
          [of "calmEnv 3" "calmEnv 2" "[Start (calmEnv 0), Stop]" 0 Visible
              "start (calmEnv 2) (newPage 0 Visible)" "calmEnv 5"]
  by (simp add: getActive_def start_active start_idem)

text \<open>
  Claim C1. After a \<open>stop()\<close> that follows a \<open>start()\<close>, none of the interval timers the
  manager created is pending and \<open>getActive()\<close> returns false. On the code the second half
  holds and the first does not: \<open>start()\<close> on a fresh page followed by \<open>stop()\<close> leaves
  the idle-check timer of \<open>setupVisibilityRefresh\<close> (handle 3, every 5 minutes) pending,
  since its handle was never kept.
\<close>

theorem stop_after_start_leaves_idle_timer:
  "timers (stop (start env (newPage t v))) = [(3, IdleCheckTimer 0, 5 * 60 * 1000)]
 \<and> \<not> getActive (stop (start env (newPage t v)))"
  by (simp add: page_defs newPage_def getActive_def Let_def)

end
